theory Spec2Isabelle
  imports Complex_Main
begin

section \<open>The hub registration manager (pkg/registration/hub/manager.go)\<close>

text \<open>
  \<^verbatim>\<open>RunControllerManager\<close> wires the hub controllers: it builds four clients, constructs
  the controllers, chooses the CSR approving controller (v1 or v1beta1) and starts every
  controller with \<^verbatim>\<open>Run(ctx, 1)\<close>. The model keeps the order and the branches of the Go
  function. What the function reads from outside (feature gates, client construction,
  API discovery) is a record of inputs; what it does to the outside (discovery calls,
  constructor calls, goroutines started, log lines) is a trace that the model returns
  together with the returned error.
\<close>

subsection \<open>Data\<close>

text \<open>The three feature gates that \<^verbatim>\<open>RunControllerManager\<close> asks for.\<close>

datatype feature = ManagedClusterAutoApproval | V1beta1CSRAPICompatibility | DefaultClusterSet

text \<open>Go errors: an opaque error, or \<^verbatim>\<open>errors.Wrapf(err, msg)\<close> around one.\<close>

datatype error = Err string | Wrapf error string

record HubManagerOptions =
  ClusterAutoApprovalUsers :: "string list"

text \<open>
  The two fields of \<^verbatim>\<open>rest.Config\<close> that the function touches. \<^verbatim>\<open>QPS\<close> is a float32 in
  Go; it is only compared with 0 and set to 100, so a rational stands for it.
\<close>

record rest_config =
  QPS :: rat
  Burst :: int

text \<open>
  \<^verbatim>\<open>csr.Reconciler\<close> values: the renewal reconciler, and the bootstrap reconciler built from
  \<^verbatim>\<open>m.ClusterAutoApprovalUsers\<close>.
\<close>

datatype reconciler = CSRRenewalReconciler | CSRBootstrapReconciler "string list"

text \<open>
  The type argument of \<^verbatim>\<open>NewCSRApprovingController\<close> (with the informer and lister of the
  same API version), and the approver passed to it.
\<close>

datatype csr_api = CertV1 | CertV1beta1

datatype approver = CSRV1Approver | CSRV1beta1Approver

datatype controller =
    ManagedClusterController
  | TaintController
  | CSRApprovingController csr_api approver "reconciler list"
  | ClusterLeaseController
  | FinalizeController
  | ManagedClusterSetController
  | ManagedClusterSetBindingController
  | ManagedClusterClusterroleController
  | ManagedClusterAddOnHealthCheckController
  | AddOnFeatureDiscoveryController
  | DefaultManagedClusterSetController
  | GlobalManagedClusterSetController

datatype informer_factory = ClusterInformers | WorkInformers | KubeInformers | AddOnInformers

text \<open>
  The inputs of a run. \<^verbatim>\<open>Enabled\<close> is \<^verbatim>\<open>DefaultHubRegistrationMutableFeatureGate.Enabled\<close>;
  the four \<^verbatim>\<open>NewForConfig\<close> fields give the error of each client constructor
  (\<open>None\<close> is Go's \<^verbatim>\<open>nil\<close>); \<^verbatim>\<open>IsCSRSupported\<close> gives the three results
  \<^verbatim>\<open>(v1CSRSupported, v1beta1CSRSupported, err)\<close> of \<^verbatim>\<open>helpers.IsCSRSupported\<close>, indexed by
  the number of calls made before, so that a second call could answer differently.
  The gates are those parsed from the command line before the manager runs; they are
  constant during a run.
\<close>

record env =
  KubeConfig :: rest_config
  Enabled :: "feature \<Rightarrow> bool"
  kubernetesNewForConfig :: "rest_config \<Rightarrow> error option"
  clusterNewForConfig :: "rest_config \<Rightarrow> error option"
  workNewForConfig :: "rest_config \<Rightarrow> error option"
  addonNewForConfig :: "rest_config \<Rightarrow> error option"
  IsCSRSupported :: "nat \<Rightarrow> bool \<times> bool \<times> error option"

text \<open>
  The trace of a run: how often API discovery was called, the controllers constructed (in
  order), the informer factories started, the \<^verbatim>\<open>Run(ctx, workers)\<close> goroutines started
  with their worker count, and the \<^verbatim>\<open>klog.Info\<close> lines.
\<close>

record world =
  probes :: nat
  constructed :: "controller list"
  started :: "informer_factory list"
  running :: "(controller \<times> nat) list"
  klog :: "string list"

definition world0 :: world where
  "world0 = \<lparr>probes = 0, constructed = [], started = [], running = [], klog = []\<rparr>"

subsection \<open>The steps of RunControllerManager\<close>

text \<open>Lines 64-68: copy the configuration and raise QPS and burst when QPS is unset.\<close>

definition copyConfig :: "rest_config \<Rightarrow> rest_config" where
  "copyConfig c = (if QPS c = 0 then c\<lparr>QPS := 100, Burst := 200\<rparr> else c)"

text \<open>Lines 70-88: the four clients, in order; the first error is returned.\<close>

definition newClients :: "env \<Rightarrow> rest_config \<Rightarrow> error option" where
  "newClients e c =
     (case kubernetesNewForConfig e c of Some err \<Rightarrow> Some err | None \<Rightarrow>
      (case clusterNewForConfig e c of Some err \<Rightarrow> Some err | None \<Rightarrow>
       (case workNewForConfig e c of Some err \<Rightarrow> Some err | None \<Rightarrow>
        addonNewForConfig e c)))"

definition construct :: "controller \<Rightarrow> world \<Rightarrow> world" where
  "construct c w = w\<lparr>constructed := constructed w @ [c]\<rparr>"

definition run :: "controller \<Rightarrow> nat \<Rightarrow> world \<Rightarrow> world" where
  "run c workers w = w\<lparr>running := running w @ [(c, workers)]\<rparr>"

text \<open>Lines 108-117: the reconcilers; the bootstrap reconciler is appended under its gate.\<close>

definition csrReconciles :: "HubManagerOptions \<Rightarrow> env \<Rightarrow> reconciler list" where
  "csrReconciles m e =
     (let rs = [CSRRenewalReconciler] in
      if Enabled e ManagedClusterAutoApproval
      then rs @ [CSRBootstrapReconciler (ClusterAutoApprovalUsers m)]
      else rs)"

text \<open>
  Lines 119-136: \<^verbatim>\<open>var csrController factory.Controller\<close> starts as \<^verbatim>\<open>nil\<close> (\<open>None\<close>).
  Under the compatibility gate the CSR API is discovered once; a discovery error is
  wrapped and returned; the v1beta1 controller is built when v1 is not supported and
  v1beta1 is.
\<close>

definition csrApiDiscovery ::
  "env \<Rightarrow> reconciler list \<Rightarrow> world \<Rightarrow> (error + controller option) \<times> world" where
  "csrApiDiscovery e rs w =
     (if Enabled e V1beta1CSRAPICompatibility then
        (case IsCSRSupported e (probes w) of (v1CSRSupported, v1beta1CSRSupported, err) \<Rightarrow>
          let w1 = w\<lparr>probes := Suc (probes w)\<rparr> in
          (case err of
             Some x \<Rightarrow> (Inl (Wrapf x ''failed CSR api discovery''), w1)
           | None \<Rightarrow>
              if \<not> v1CSRSupported \<and> v1beta1CSRSupported then
                let c = CSRApprovingController CertV1beta1 CSRV1beta1Approver rs;
                    w2 = construct c w1
                in (Inr (Some c),
                    w2\<lparr>klog := klog w2 @ [''Using v1beta1 CSR api to manage spoke client certificate'']\<rparr>)
              else (Inr None, w1)))
      else (Inr None, w))"

text \<open>Lines 137-145: when no controller was chosen, the v1 controller is built.\<close>

definition csrControllerOrV1 ::
  "controller option \<Rightarrow> reconciler list \<Rightarrow> world \<Rightarrow> controller \<times> world" where
  "csrControllerOrV1 cc rs w =
     (case cc of
        None \<Rightarrow> (let c = CSRApprovingController CertV1 CSRV1Approver rs in (c, construct c w))
      | Some c \<Rightarrow> (c, w))"

text \<open>Lines 147-212: the other controllers; the two cluster-set controllers under their gate.\<close>

definition otherControllers :: "env \<Rightarrow> world \<Rightarrow> world" where
  "otherControllers e w =
     (let w1 = fold construct
            [ClusterLeaseController, FinalizeController, ManagedClusterSetController,
             ManagedClusterSetBindingController, ManagedClusterClusterroleController,
             ManagedClusterAddOnHealthCheckController, AddOnFeatureDiscoveryController] w
      in if Enabled e DefaultClusterSet
         then construct GlobalManagedClusterSetController
                (construct DefaultManagedClusterSetController w1)
         else w1)"

text \<open>Lines 214-232: the informers are started, then every controller with one worker.\<close>

definition startAll :: "env \<Rightarrow> controller \<Rightarrow> world \<Rightarrow> world" where
  "startAll e csrController w =
     (let w1 = w\<lparr>started := started w @ [ClusterInformers, WorkInformers, KubeInformers, AddOnInformers]\<rparr>;
          w2 = fold (\<lambda>c. run c 1)
            [ManagedClusterController, TaintController, csrController, ClusterLeaseController,
             FinalizeController, ManagedClusterSetController, ManagedClusterSetBindingController,
             ManagedClusterClusterroleController, ManagedClusterAddOnHealthCheckController,
             AddOnFeatureDiscoveryController] w1
      in if Enabled e DefaultClusterSet
         then run GlobalManagedClusterSetController 1
                (run DefaultManagedClusterSetController 1 w2)
         else w2)"

text \<open>
  The whole function: the returned error (\<open>None\<close> for \<^verbatim>\<open>nil\<close>, returned once the context
  is done) and the trace.
\<close>

definition RunControllerManager :: "HubManagerOptions \<Rightarrow> env \<Rightarrow> error option \<times> world" where
  "RunControllerManager m e =
     (let kubeConfig = copyConfig (KubeConfig e) in
      case newClients e kubeConfig of
        Some err \<Rightarrow> (Some err, world0)
      | None \<Rightarrow>
         (let w1 = construct TaintController (construct ManagedClusterController world0);
              rs = csrReconciles m e
          in case csrApiDiscovery e rs w1 of
               (Inl err, w2) \<Rightarrow> (Some err, w2)
             | (Inr cc, w2) \<Rightarrow>
                (case csrControllerOrV1 cc rs w2 of (csrController, w3) \<Rightarrow>
                   (None, startAll e csrController (otherControllers e w3)))))"

text \<open>Which constructed controllers are CSR approving controllers, and of which API.\<close>

fun isCSRApproving :: "controller \<Rightarrow> bool" where
  "isCSRApproving (CSRApprovingController _ _ _) = True"
| "isCSRApproving _ = False"

fun csrApiOf :: "controller \<Rightarrow> csr_api option" where
  "csrApiOf (CSRApprovingController a _ _) = Some a"
| "csrApiOf _ = None"

text \<open>Example inputs: a hub with every gate off, on a cluster that serves only v1beta1.\<close>

definition noUsers :: HubManagerOptions where
  "noUsers = \<lparr>ClusterAutoApprovalUsers = []\<rparr>"

definition gatesOffLegacyCluster :: env where
  "gatesOffLegacyCluster =
     \<lparr>KubeConfig = \<lparr>QPS = 0, Burst = 0\<rparr>,
      Enabled = (\<lambda>f. False),
      kubernetesNewForConfig = (\<lambda>c. None),
      clusterNewForConfig = (\<lambda>c. None),
      workNewForConfig = (\<lambda>c. None),
      addonNewForConfig = (\<lambda>c. None),
      IsCSRSupported = (\<lambda>n. (False, True, None))\<rparr>"

text \<open>
  Every gate on, with a discovery that fails on its first call and would succeed on any
  later one.
\<close>

definition gatesOnFailingDiscovery :: env where
  "gatesOnFailingDiscovery =
     gatesOffLegacyCluster
       \<lparr>Enabled := (\<lambda>f. True),
        IsCSRSupported := (\<lambda>n. if n = 0 then (False, False, Some (Err ''connection refused''))
                                 else (True, True, None))\<rparr>"

text \<open>Every gate on, on a cluster that serves both v1 and v1beta1.\<close>

definition gatesOnBothServed :: env where
  "gatesOnBothServed =
     gatesOffLegacyCluster
       \<lparr>Enabled := (\<lambda>f. True), IsCSRSupported := (\<lambda>n. (True, True, None))\<rparr>"

text \<open>Every gate on, on a cluster that serves only v1beta1.\<close>

definition gatesOnLegacyCluster :: env where
  "gatesOnLegacyCluster = gatesOffLegacyCluster\<lparr>Enabled := (\<lambda>f. True)\<rparr>"

definition bootstrapUsers :: HubManagerOptions where
  "bootstrapUsers = \<lparr>ClusterAutoApprovalUsers = [''bootstrap-sa'']\<rparr>"

subsection \<open>The worker pool behind Run(ctx, workers)\<close>

text \<open>
  Modelled from the spec: the controller factory that implements \<^verbatim>\<open>Run(ctx, workers)\<close> is
  not in the sources. Section 5 of the specification describes each controller as a
  worker pool fed by a work queue of keys: a notification for a key that is already
  queued coalesces, a key has at most one reconciliation in flight, and a worker takes
  one key at a time. \<open>workers\<close> is the number of workers, the second argument of
  \<^verbatim>\<open>Run\<close>.
\<close>

record pool =
  queue :: "string list"
  inflight :: "string list"

datatype pool_event = Add string | Get | Done string

text \<open>
  Modelled from the spec: the pool starts empty; \<open>Add\<close> is a notification for a key,
  \<open>Get\<close> a worker asking for the next key that is not in flight (it gets none when all
  \<open>workers\<close> workers are busy), \<open>Done\<close> the end of a reconciliation.
\<close>

definition pool0 :: pool where
  "pool0 = \<lparr>queue = [], inflight = []\<rparr>"

fun poolStep :: "nat \<Rightarrow> pool_event \<Rightarrow> pool \<Rightarrow> pool" where
  "poolStep workers (Add k) p =
     (if k \<in> set (queue p) then p else p\<lparr>queue := queue p @ [k]\<rparr>)"
| "poolStep workers Get p =
     (case List.find (\<lambda>k. k \<notin> set (inflight p)) (queue p) of
        None \<Rightarrow> p
      | Some k \<Rightarrow>
          if length (inflight p) < workers
          then \<lparr>queue = remove1 k (queue p), inflight = inflight p @ [k]\<rparr>
          else p)"
| "poolStep workers (Done k) p = p\<lparr>inflight := remove1 k (inflight p)\<rparr>"

definition runPool :: "nat \<Rightarrow> pool_event list \<Rightarrow> pool" where
  "runPool workers evs = fold (poolStep workers) evs pool0"

section \<open>The approval engine and the liveness machine, as the specification gives them\<close>

subsection \<open>Registration requests and approval policies\<close>

text \<open>
  Modelled from the spec: the \<^verbatim>\<open>csr\<close> package (the reconcilers and the approving
  controller) is not in the sources. Section 3 gives the data, sections 4.2 to 4.4 the
  policies and the dispatcher. The schema variant Current is \<open>CertV1\<close>, Legacy is
  \<open>CertV1beta1\<close>.
\<close>

datatype key_usage = ClientAuth | ServerAuth | DigitalSignature | KeyEncipherment

datatype decision_state = Pending | Approved | Denied

datatype outcome = Approve | Deny | NoOpinion

record RegistrationRequest =
  requester :: string
  usages :: "key_usage set"
  organization :: "string list"
  payload :: "nat list"
  decisionState :: decision_state
  variant :: csr_api

record profile =
  profileOrganization :: "string list"
  profileUsages :: "key_usage set"

text \<open>
  Modelled from the spec: "requested usages/organization exactly match" a profile
  (sections 4.3 and 4.4).
\<close>

definition profileMatches :: "profile \<Rightarrow> RegistrationRequest \<Rightarrow> bool" where
  "profileMatches p r \<longleftrightarrow> organization r = profileOrganization p \<and> usages r = profileUsages p"

text \<open>
  Modelled from the spec: section 4.3. The renewal policy approves a request whose
  requester is the identity of an accepted cluster and whose organization and usages
  equal the profile granted to that cluster; otherwise it has no opinion.
\<close>

definition renewalPolicy :: "(string \<rightharpoonup> profile) \<Rightarrow> RegistrationRequest \<Rightarrow> outcome" where
  "renewalPolicy granted r =
     (case granted (requester r) of
        None \<Rightarrow> NoOpinion
      | Some p \<Rightarrow> if profileMatches p r then Approve else NoOpinion)"

text \<open>
  Modelled from the spec: section 4.4. The bootstrap policy approves a request whose
  requester is on the allow-list and whose organization and usages equal the expected
  spoke-bootstrap profile; otherwise it has no opinion.
\<close>

definition bootstrapPolicy :: "string list \<Rightarrow> profile \<Rightarrow> RegistrationRequest \<Rightarrow> outcome" where
  "bootstrapPolicy allowList expected r =
     (if requester r \<in> set allowList \<and> profileMatches expected r then Approve else NoOpinion)"

text \<open>
  What the policies read besides the request: the profiles granted to accepted clusters,
  and the expected bootstrap profile.
\<close>

record policy_config =
  granted :: "string \<rightharpoonup> profile"
  bootstrapProfile :: profile

text \<open>
  Modelled from the spec: the evaluation contract \<^verbatim>\<open>evaluate(request) -> Outcome\<close> of
  section 9, for the two reconcilers that \<^verbatim>\<open>RunControllerManager\<close> constructs. The
  allow-list of the bootstrap reconciler is the user list it was constructed with.
\<close>

fun evaluate :: "policy_config \<Rightarrow> reconciler \<Rightarrow> RegistrationRequest \<Rightarrow> outcome" where
  "evaluate cfg CSRRenewalReconciler r = renewalPolicy (granted cfg) r"
| "evaluate cfg (CSRBootstrapReconciler users) r = bootstrapPolicy users (bootstrapProfile cfg) r"

text \<open>
  Modelled from the spec: section 4.2. The chain stops at the first policy that answers
  Approve or Deny.
\<close>

fun firstDefinitive :: "(RegistrationRequest \<Rightarrow> outcome) list \<Rightarrow> RegistrationRequest \<Rightarrow> outcome" where
  "firstDefinitive [] r = NoOpinion"
| "firstDefinitive (p # ps) r =
     (case p r of NoOpinion \<Rightarrow> firstDefinitive ps r | Approve \<Rightarrow> Approve | Deny \<Rightarrow> Deny)"

text \<open>
  Modelled from the spec: the decision write of section 4.2, conditional on the current
  decision state. The second component lists the writes issued.
\<close>

definition writeDecision ::
  "decision_state \<Rightarrow> RegistrationRequest \<Rightarrow> RegistrationRequest \<times> decision_state list" where
  "writeDecision d r =
     (if decisionState r = Pending then (r\<lparr>decisionState := d\<rparr>, [d]) else (r, []))"

text \<open>
  Modelled from the spec: one invocation of the chain on a request. Only a Pending
  request is evaluated; when every policy has no opinion the request stays Pending.
\<close>

definition dispatch ::
  "(RegistrationRequest \<Rightarrow> outcome) list \<Rightarrow> RegistrationRequest \<Rightarrow>
     RegistrationRequest \<times> decision_state list" where
  "dispatch ps r =
     (if decisionState r \<noteq> Pending then (r, [])
      else (case firstDefinitive ps r of
              Approve \<Rightarrow> writeDecision Approved r
            | Deny \<Rightarrow> writeDecision Denied r
            | NoOpinion \<Rightarrow> (r, [])))"

text \<open>
  Repeated invocations (retries, redelivered notifications, resyncs), one chain per
  invocation; the writes of all invocations are collected.
\<close>

fun redeliver ::
  "(RegistrationRequest \<Rightarrow> outcome) list list \<Rightarrow> RegistrationRequest \<Rightarrow>
     RegistrationRequest \<times> decision_state list" where
  "redeliver [] r = (r, [])"
| "redeliver (ps # pss) r =
     (case dispatch ps r of (r', ws) \<Rightarrow>
        (case redeliver pss r' of (r'', ws') \<Rightarrow> (r'', ws @ ws')))"

text \<open>The scenario of section 8 of the specification.\<close>

definition spokeProfile :: profile where
  "spokeProfile =
     \<lparr>profileOrganization = [''system:open-cluster-management:cluster1''],
      profileUsages = {ClientAuth}\<rparr>"

definition scenarioConfig :: policy_config where
  "scenarioConfig = \<lparr>granted = Map.empty, bootstrapProfile = spokeProfile\<rparr>"

definition requestFrom :: "string \<Rightarrow> RegistrationRequest" where
  "requestFrom who =
     \<lparr>requester = who, usages = {ClientAuth},
      organization = [''system:open-cluster-management:cluster1''],
      payload = [], decisionState = Pending, variant = CertV1\<rparr>"

text \<open>
  The chain of that scenario: the evaluation of the reconcilers that
  \<^verbatim>\<open>RunControllerManager\<close> builds for the user list "bootstrap-sa" with the gates on.
\<close>

definition scenarioChain :: "(RegistrationRequest \<Rightarrow> outcome) list" where
  "scenarioChain = map (evaluate scenarioConfig) (csrReconciles bootstrapUsers gatesOnBothServed)"

subsection \<open>Heartbeat and availability\<close>

text \<open>
  Modelled from the spec: the lease controller is not in the sources. Section 4.5 gives
  the evaluation of one heartbeat age (in seconds) against the staleness threshold T.
\<close>

datatype availability = Unknown | Available | Unreachable

record SpokeCluster =
  availability :: availability
  taints :: "string set"

record liveness_config =
  renewInterval :: int
  staleness :: int
  exclusionKey :: string

text \<open>
  Modelled from the spec: the three rules of section 4.5, in their order. An age above T
  makes a cluster that is not Unreachable Unreachable and applies the exclusion taint; an
  age of at most T makes an Unreachable cluster Available and removes the taint; the
  first heartbeat makes an Unknown cluster Available. The taints are a set of keys.
\<close>

definition evaluateLiveness :: "liveness_config \<Rightarrow> int \<Rightarrow> SpokeCluster \<Rightarrow> SpokeCluster" where
  "evaluateLiveness cfg age c =
     (if age > staleness cfg \<and> availability c \<noteq> Unreachable
      then c\<lparr>availability := Unreachable, taints := insert (exclusionKey cfg) (taints c)\<rparr>
      else if age \<le> staleness cfg \<and> availability c = Unreachable
      then c\<lparr>availability := Available, taints := taints c - {exclusionKey cfg}\<rparr>
      else if availability c = Unknown
      then c\<lparr>availability := Available\<rparr>
      else c)"

text \<open>The availability after each of a sequence of evaluations.\<close>

fun availabilitySequence ::
  "liveness_config \<Rightarrow> int list \<Rightarrow> SpokeCluster \<Rightarrow> availability list" where
  "availabilitySequence cfg [] c = []"
| "availabilitySequence cfg (age # ages) c =
     (let c' = evaluateLiveness cfg age c in availability c' # availabilitySequence cfg ages c')"

definition sampleConfig :: liveness_config where
  "sampleConfig = \<lparr>renewInterval = 60, staleness = 300, exclusionKey = ''unreachable''\<rparr>"

definition freshCluster :: SpokeCluster where
  "freshCluster = \<lparr>availability = Unknown, taints = {}\<rparr>"

section \<open>Properties\<close>

subsection \<open>Auxiliary facts\<close>

lemmas manager_defs =
  RunControllerManager_def csrApiDiscovery_def csrControllerOrV1_def startAll_def
  otherControllers_def construct_def run_def world0_def Let_def

lemmas example_defs =
  gatesOffLegacyCluster_def gatesOnFailingDiscovery_def gatesOnBothServed_def
  gatesOnLegacyCluster_def noUsers_def
  bootstrapUsers_def newClients_def copyConfig_def csrReconciles_def

lemma poolStep_bound:
  "length (inflight p) \<le> workers \<Longrightarrow> length (inflight (poolStep workers ev p)) \<le> workers"
  by (cases ev) (auto simp: length_remove1 split: option.splits)

lemma fold_poolStep_bound:
  "length (inflight p) \<le> workers \<Longrightarrow>
   length (inflight (fold (poolStep workers) evs p)) \<le> workers"
  by (induction evs arbitrary: p) (simp_all add: poolStep_bound)

lemma runPool_bound: "length (inflight (runPool workers evs)) \<le> workers"
  by (simp add: runPool_def pool0_def fold_poolStep_bound)

lemma dispatch_terminal: "decisionState r \<noteq> Pending \<Longrightarrow> dispatch ps r = (r, [])"
  by (simp add: dispatch_def)

lemma dispatch_cases:
  "dispatch ps r = (r, []) \<or>
   (decisionState r = Pending \<and>
    (\<exists>d. d \<noteq> Pending \<and> dispatch ps r = (r\<lparr>decisionState := d\<rparr>, [d])))"
  by (auto simp: dispatch_def writeDecision_def split: outcome.splits)

lemma redeliver_terminal: "decisionState r \<noteq> Pending \<Longrightarrow> redeliver pss r = (r, [])"
  by (induction pss) (simp_all add: dispatch_terminal)

lemma redeliver_writes: "length (snd (redeliver pss r)) \<le> 1"
proof (induction pss arbitrary: r)
  case Nil
  show ?case by simp
next
  case (Cons ps pss)
  from dispatch_cases [of ps r] show ?case
  proof
    assume "dispatch ps r = (r, [])"
    with Cons.IH [of r] show ?thesis by (simp split: prod.splits)
  next
    assume "decisionState r = Pending \<and>
      (\<exists>d. d \<noteq> Pending \<and> dispatch ps r = (r\<lparr>decisionState := d\<rparr>, [d]))"
    then obtain d where d: "d \<noteq> Pending" "dispatch ps r = (r\<lparr>decisionState := d\<rparr>, [d])"
      by blast
    then have "redeliver pss (r\<lparr>decisionState := d\<rparr>) = (r\<lparr>decisionState := d\<rparr>, [])"
      by (simp add: redeliver_terminal)
    with d show ?thesis by simp
  qed
qed

subsection \<open>The compatibility selector\<close>

text \<open>
  Claim C9. When the gate \<open>V1beta1CSRAPICompatibility\<close> is disabled, API discovery is not
  called at all, whatever the cluster would answer; and when the clients can be built,
  the function returns no error and the one CSR approving controller that it constructs
  and starts is the v1 controller with the v1 approver.
\<close>

theorem gate_off_no_discovery:
  assumes "\<not> Enabled e V1beta1CSRAPICompatibility"
  shows "probes (snd (RunControllerManager m e)) = 0 \<and>
    (newClients e (copyConfig (KubeConfig e)) = None \<longrightarrow>
       fst (RunControllerManager m e) = None \<and>
       filter isCSRApproving (constructed (snd (RunControllerManager m e))) =
         [CSRApprovingController CertV1 CSRV1Approver (csrReconciles m e)] \<and>
       filter (isCSRApproving \<circ> fst) (running (snd (RunControllerManager m e))) =
         [(CSRApprovingController CertV1 CSRV1Approver (csrReconciles m e), 1)])"
  using assms by (simp add: manager_defs split: option.splits)

theorem gate_off_no_discovery_witness:
  "\<not> Enabled gatesOffLegacyCluster V1beta1CSRAPICompatibility \<and>
   IsCSRSupported gatesOffLegacyCluster 0 = (False, True, None) \<and>
   newClients gatesOffLegacyCluster (copyConfig (KubeConfig gatesOffLegacyCluster)) = None \<and>
   probes (snd (RunControllerManager noUsers gatesOffLegacyCluster)) = 0 \<and>
   filter isCSRApproving (constructed (snd (RunControllerManager noUsers gatesOffLegacyCluster))) =
     [CSRApprovingController CertV1 CSRV1Approver [CSRRenewalReconciler]]"
  using gate_off_no_discovery [of gatesOffLegacyCluster noUsers]
  by (simp add: example_defs)

text \<open>
  Claim C3. When API discovery reports v1 as supported (without error), no v1beta1
  controller is ever constructed, whether v1beta1 is supported or not and whatever the
  gates are; and when the clients can be built, the function returns no error and the
  one CSR approving controller constructed and started is the v1 controller.
\<close>

theorem current_supported_selects_v1:
  assumes "IsCSRSupported e 0 = (True, v1beta1CSRSupported, None)"
  shows "(\<forall>c \<in> set (constructed (snd (RunControllerManager m e))). csrApiOf c \<noteq> Some CertV1beta1) \<and>
    (newClients e (copyConfig (KubeConfig e)) = None \<longrightarrow>
       fst (RunControllerManager m e) = None \<and>
       filter isCSRApproving (constructed (snd (RunControllerManager m e))) =
         [CSRApprovingController CertV1 CSRV1Approver (csrReconciles m e)] \<and>
       filter (isCSRApproving \<circ> fst) (running (snd (RunControllerManager m e))) =
         [(CSRApprovingController CertV1 CSRV1Approver (csrReconciles m e), 1)])"
  using assms by (auto simp add: manager_defs split: option.splits)

theorem current_supported_selects_v1_witness:
  "IsCSRSupported gatesOnBothServed 0 = (True, True, None) \<and>
   Enabled gatesOnBothServed V1beta1CSRAPICompatibility \<and>
   newClients gatesOnBothServed (copyConfig (KubeConfig gatesOnBothServed)) = None \<and>
   fst (RunControllerManager bootstrapUsers gatesOnBothServed) = None \<and>
   filter isCSRApproving (constructed (snd (RunControllerManager bootstrapUsers gatesOnBothServed))) =
     [CSRApprovingController CertV1 CSRV1Approver
        [CSRRenewalReconciler, CSRBootstrapReconciler [''bootstrap-sa'']]]"
  using current_supported_selects_v1 [of gatesOnBothServed True bootstrapUsers]
  by (simp add: example_defs)

text \<open>
  Claim C2, as stated, fails: with the compatibility gate disabled and a cluster that
  does not serve v1 (here it serves only v1beta1), the function returns no error and
  constructs the v1 pipeline.
\<close>

theorem gate_off_unsupported_current_no_error:
  "\<not> Enabled gatesOffLegacyCluster V1beta1CSRAPICompatibility \<and>
   fst (IsCSRSupported gatesOffLegacyCluster 0) = False \<and>
   fst (RunControllerManager noUsers gatesOffLegacyCluster) = None \<and>
   filter (isCSRApproving \<circ> fst) (running (snd (RunControllerManager noUsers gatesOffLegacyCluster))) =
     [(CSRApprovingController CertV1 CSRV1Approver [CSRRenewalReconciler], 1)]"
  by (simp add: manager_defs example_defs)

text \<open>
  Claim C2, amended. At startup, when the v1 schema is unsupported by the cluster and the
  compatibility gate is disabled, the selector does not fail: provided the clients can
  be built, \<^verbatim>\<open>RunControllerManager\<close> returns no error, starts the v1 approving controller
  and constructs no v1beta1 controller.
\<close>

theorem gate_off_unsupported_current_builds_v1:
  assumes "\<not> Enabled e V1beta1CSRAPICompatibility"
    and "\<forall>n. \<not> fst (IsCSRSupported e n)"
    and "newClients e (copyConfig (KubeConfig e)) = None"
  shows "fst (RunControllerManager m e) = None \<and>
    (CSRApprovingController CertV1 CSRV1Approver (csrReconciles m e), 1)
       \<in> set (running (snd (RunControllerManager m e))) \<and>
    list_all (\<lambda>c. csrApiOf c \<noteq> Some CertV1beta1) (constructed (snd (RunControllerManager m e)))"
  using assms(1,3) by (simp add: manager_defs)

theorem gate_off_unsupported_current_builds_v1_witness:
  "\<not> Enabled gatesOffLegacyCluster V1beta1CSRAPICompatibility \<and>
   (\<forall>n. \<not> fst (IsCSRSupported gatesOffLegacyCluster n)) \<and>
   newClients gatesOffLegacyCluster (copyConfig (KubeConfig gatesOffLegacyCluster)) = None \<and>
   fst (RunControllerManager noUsers gatesOffLegacyCluster) = None \<and>
   (CSRApprovingController CertV1 CSRV1Approver [CSRRenewalReconciler], 1)
      \<in> set (running (snd (RunControllerManager noUsers gatesOffLegacyCluster)))"
  using gate_off_unsupported_current_builds_v1 [of gatesOffLegacyCluster noUsers]
  by (simp add: example_defs)

text \<open>
  Claim C5. When the compatibility gate is enabled and API discovery returns an error,
  \<^verbatim>\<open>RunControllerManager\<close> returns that error wrapped with "failed CSR api discovery";
  discovery has been called exactly once (a second call is never made, whatever it would
  answer), no CSR approving controller has been constructed and no controller has been
  started.
\<close>

theorem discovery_error_propagated_once:
  assumes "newClients e (copyConfig (KubeConfig e)) = None"
    and "Enabled e V1beta1CSRAPICompatibility"
    and "IsCSRSupported e 0 = (v1CSRSupported, v1beta1CSRSupported, Some x)"
  shows "fst (RunControllerManager m e) = Some (Wrapf x ''failed CSR api discovery'') \<and>
    probes (snd (RunControllerManager m e)) = 1 \<and>
    filter isCSRApproving (constructed (snd (RunControllerManager m e))) = [] \<and>
    running (snd (RunControllerManager m e)) = []"
  using assms by (simp add: manager_defs)

theorem discovery_error_propagated_once_witness:
  "newClients gatesOnFailingDiscovery (copyConfig (KubeConfig gatesOnFailingDiscovery)) = None \<and>
   Enabled gatesOnFailingDiscovery V1beta1CSRAPICompatibility \<and>
   IsCSRSupported gatesOnFailingDiscovery 0 = (False, False, Some (Err ''connection refused'')) \<and>
   IsCSRSupported gatesOnFailingDiscovery 1 = (True, True, None) \<and>
   fst (RunControllerManager noUsers gatesOnFailingDiscovery) =
     Some (Wrapf (Err ''connection refused'') ''failed CSR api discovery'') \<and>
   probes (snd (RunControllerManager noUsers gatesOnFailingDiscovery)) = 1 \<and>
   running (snd (RunControllerManager noUsers gatesOnFailingDiscovery)) = []"
  using discovery_error_propagated_once
    [of gatesOnFailingDiscovery False False "Err ''connection refused''" noUsers]
  by (simp add: example_defs)

text \<open>
  Claim C6. In every run, API discovery is called at most once. A run returns no error
  exactly when the four clients can be built and, under the compatibility gate, the one
  discovery call returns no error. Such a run has constructed exactly one CSR approving
  controller, and that controller is the only CSR approving controller started: the
  v1beta1 controller with the v1beta1 approver when the gate is enabled and the one
  discovery call reports v1 unsupported and v1beta1 supported, the v1 controller with the
  v1 approver otherwise; discovery has been called once under the gate and never
  without it. A run that returns an error has constructed no CSR approving controller
  and started nothing.
\<close>

theorem exactly_one_csr_controller:
  "probes (snd (RunControllerManager m e)) \<le> 1 \<and>
   (fst (RunControllerManager m e) = None \<longleftrightarrow>
      newClients e (copyConfig (KubeConfig e)) = None \<and>
      (Enabled e V1beta1CSRAPICompatibility \<longrightarrow> snd (snd (IsCSRSupported e 0)) = None)) \<and>
   (fst (RunControllerManager m e) = None \<longrightarrow>
      length (filter isCSRApproving (constructed (snd (RunControllerManager m e)))) = 1 \<and>
      filter isCSRApproving (constructed (snd (RunControllerManager m e))) =
        [if Enabled e V1beta1CSRAPICompatibility \<and> \<not> fst (IsCSRSupported e 0) \<and>
            fst (snd (IsCSRSupported e 0))
         then CSRApprovingController CertV1beta1 CSRV1beta1Approver (csrReconciles m e)
         else CSRApprovingController CertV1 CSRV1Approver (csrReconciles m e)] \<and>
      filter (isCSRApproving \<circ> fst) (running (snd (RunControllerManager m e))) =
        map (\<lambda>c. (c, 1)) (filter isCSRApproving (constructed (snd (RunControllerManager m e)))) \<and>
      probes (snd (RunControllerManager m e)) =
        (if Enabled e V1beta1CSRAPICompatibility then 1 else 0)) \<and>
   (fst (RunControllerManager m e) \<noteq> None \<longrightarrow>
      filter isCSRApproving (constructed (snd (RunControllerManager m e))) = [] \<and>
      running (snd (RunControllerManager m e)) = [])"
proof (cases "newClients e (copyConfig (KubeConfig e))")
  case (Some err)
  then show ?thesis by (simp add: manager_defs)
next
  case clients: None
  show ?thesis
  proof (cases "Enabled e V1beta1CSRAPICompatibility")
    case False
    with clients show ?thesis by (simp add: manager_defs)
  next
    case True
    obtain v1 v1beta1 err where probe: "IsCSRSupported e 0 = (v1, v1beta1, err)"
      by (cases "IsCSRSupported e 0") auto
    show ?thesis
    proof (cases err)
      case None
      with clients True probe show ?thesis by (simp add: manager_defs)
    next
      case (Some x)
      with clients True probe show ?thesis by (simp add: manager_defs)
    qed
  qed
qed

theorem exactly_one_csr_controller_witness:
  "fst (RunControllerManager bootstrapUsers gatesOnLegacyCluster) = None \<and>
   probes (snd (RunControllerManager bootstrapUsers gatesOnLegacyCluster)) = 1 \<and>
   filter isCSRApproving (constructed (snd (RunControllerManager bootstrapUsers gatesOnLegacyCluster))) =
     [CSRApprovingController CertV1beta1 CSRV1beta1Approver
        [CSRRenewalReconciler, CSRBootstrapReconciler [''bootstrap-sa'']]] \<and>
   fst (RunControllerManager bootstrapUsers gatesOnBothServed) = None \<and>
   filter isCSRApproving (constructed (snd (RunControllerManager bootstrapUsers gatesOnBothServed))) =
     [CSRApprovingController CertV1 CSRV1Approver
        [CSRRenewalReconciler, CSRBootstrapReconciler [''bootstrap-sa'']]] \<and>
   fst (RunControllerManager noUsers gatesOffLegacyCluster) = None \<and>
   probes (snd (RunControllerManager noUsers gatesOffLegacyCluster)) = 0 \<and>
   filter isCSRApproving (constructed (snd (RunControllerManager noUsers gatesOffLegacyCluster))) =
     [CSRApprovingController CertV1 CSRV1Approver [CSRRenewalReconciler]] \<and>
   fst (RunControllerManager noUsers gatesOnFailingDiscovery) \<noteq> None \<and>
   filter isCSRApproving (constructed (snd (RunControllerManager noUsers gatesOnFailingDiscovery))) = []"
  using exactly_one_csr_controller [of bootstrapUsers gatesOnLegacyCluster]
    exactly_one_csr_controller [of bootstrapUsers gatesOnBothServed]
    exactly_one_csr_controller [of noUsers gatesOffLegacyCluster]
    exactly_one_csr_controller [of noUsers gatesOnFailingDiscovery]
  by (simp add: example_defs)

subsection \<open>The policy chain\<close>

text \<open>
  Claim C4. The reconciler list is built once, before the controller: the renewal
  reconciler first, followed by the bootstrap reconciler (over the configured users)
  exactly when the gate \<open>ManagedClusterAutoApproval\<close> is enabled. Every CSR approving
  controller that the run constructs or starts carries this list as a value.
\<close>

theorem csr_reconcilers_fixed_order:
  "csrReconciles m e =
     (if Enabled e ManagedClusterAutoApproval
      then [CSRRenewalReconciler, CSRBootstrapReconciler (ClusterAutoApprovalUsers m)]
      else [CSRRenewalReconciler]) \<and>
   hd (csrReconciles m e) = CSRRenewalReconciler \<and>
   ((\<exists>users. CSRBootstrapReconciler users \<in> set (csrReconciles m e))
      \<longleftrightarrow> Enabled e ManagedClusterAutoApproval) \<and>
   (\<forall>a ap rs. CSRApprovingController a ap rs \<in> set (constructed (snd (RunControllerManager m e)))
      \<longrightarrow> rs = csrReconciles m e) \<and>
   (\<forall>a ap rs n. (CSRApprovingController a ap rs, n) \<in> set (running (snd (RunControllerManager m e)))
      \<longrightarrow> rs = csrReconciles m e)"
  by (auto simp add: manager_defs csrReconciles_def split: option.splits prod.splits)

theorem csr_reconcilers_fixed_order_witness:
  "csrReconciles bootstrapUsers gatesOnBothServed =
     [CSRRenewalReconciler, CSRBootstrapReconciler [''bootstrap-sa'']] \<and>
   csrReconciles bootstrapUsers gatesOffLegacyCluster = [CSRRenewalReconciler] \<and>
   CSRApprovingController CertV1 CSRV1Approver
       [CSRRenewalReconciler, CSRBootstrapReconciler [''bootstrap-sa'']]
     \<in> set (constructed (snd (RunControllerManager bootstrapUsers gatesOnBothServed)))"
  using csr_reconcilers_fixed_order [of bootstrapUsers gatesOnBothServed]
    csr_reconcilers_fixed_order [of bootstrapUsers gatesOffLegacyCluster]
  by (simp add: manager_defs example_defs)

text \<open>
  Claim C1. The bootstrap policy answers Approve exactly when the requester is on the
  allow-list and the requested organization and usages equal the expected bootstrap
  profile; for a requester that is not on the allow-list it answers NoOpinion whatever
  the other fields are; it never answers Deny. This also holds for the bootstrap
  reconciler that \<^verbatim>\<open>RunControllerManager\<close> appends when the gate is enabled, whose
  allow-list is \<^verbatim>\<open>ClusterAutoApprovalUsers\<close>.
\<close>

theorem bootstrap_policy_approves_iff:
  "(evaluate cfg (CSRBootstrapReconciler users) r = Approve \<longleftrightarrow>
      requester r \<in> set users \<and>
      organization r = profileOrganization (bootstrapProfile cfg) \<and>
      usages r = profileUsages (bootstrapProfile cfg)) \<and>
   (requester r \<notin> set users \<longrightarrow> evaluate cfg (CSRBootstrapReconciler users) r = NoOpinion) \<and>
   evaluate cfg (CSRBootstrapReconciler users) r \<noteq> Deny \<and>
   (Enabled e ManagedClusterAutoApproval \<and> requester r \<notin> set (ClusterAutoApprovalUsers m) \<longrightarrow>
      map (\<lambda>p. evaluate cfg p r) (tl (csrReconciles m e)) = [NoOpinion])"
  by (simp add: bootstrapPolicy_def profileMatches_def csrReconciles_def)

theorem bootstrap_policy_approves_iff_witness:
  "evaluate scenarioConfig (CSRBootstrapReconciler [''bootstrap-sa''])
     (requestFrom ''bootstrap-sa'') = Approve \<and>
   evaluate scenarioConfig (CSRBootstrapReconciler [''bootstrap-sa''])
     (requestFrom ''random-user'') = NoOpinion \<and>
   Enabled gatesOnBothServed ManagedClusterAutoApproval \<and>
   map (\<lambda>p. evaluate scenarioConfig p (requestFrom ''random-user''))
     (tl (csrReconciles bootstrapUsers gatesOnBothServed)) = [NoOpinion]"
  using bootstrap_policy_approves_iff
      [of scenarioConfig "[''bootstrap-sa'']" "requestFrom ''bootstrap-sa''"
          gatesOnBothServed bootstrapUsers]
    bootstrap_policy_approves_iff
      [of scenarioConfig "[''bootstrap-sa'']" "requestFrom ''random-user''"
          gatesOnBothServed bootstrapUsers]
  by (simp add: scenarioConfig_def spokeProfile_def requestFrom_def example_defs)

subsection \<open>The dispatcher\<close>

text \<open>
  Claim C7. Invoking the chain on a request whose decision state is Approved or Denied
  returns the request unchanged and issues no write, for one invocation and for any
  number of them. Over any sequence of invocations at most one decision is written. An
  invocation changes the decision state only from Pending to a state other than Pending,
  and an invocation that issues no write leaves the request as it was.
\<close>

theorem decision_written_at_most_once:
  "(decisionState r \<noteq> Pending \<longrightarrow> dispatch ps r = (r, []) \<and> redeliver pss r = (r, [])) \<and>
   length (snd (redeliver pss r)) \<le> 1 \<and>
   (decisionState (fst (dispatch ps r)) \<noteq> decisionState r \<longrightarrow>
      decisionState r = Pending \<and> decisionState (fst (dispatch ps r)) \<noteq> Pending) \<and>
   (snd (dispatch ps r) = [] \<longrightarrow> fst (dispatch ps r) = r)"
proof -
  have terminal:
    "decisionState r \<noteq> Pending \<longrightarrow> dispatch ps r = (r, []) \<and> redeliver pss r = (r, [])"
    by (simp add: dispatch_terminal redeliver_terminal)
  have writes: "length (snd (redeliver pss r)) \<le> 1"
    by (rule redeliver_writes)
  have leaves: "decisionState (fst (dispatch ps r)) \<noteq> decisionState r \<longrightarrow>
      decisionState r = Pending \<and> decisionState (fst (dispatch ps r)) \<noteq> Pending"
    using dispatch_cases [of ps r] by auto
  have silent: "snd (dispatch ps r) = [] \<longrightarrow> fst (dispatch ps r) = r"
    using dispatch_cases [of ps r] by auto
  from terminal writes leaves silent show ?thesis by blast
qed

theorem decision_written_at_most_once_witness:
  "dispatch scenarioChain (requestFrom ''bootstrap-sa'') =
     ((requestFrom ''bootstrap-sa'')\<lparr>decisionState := Approved\<rparr>, [Approved]) \<and>
   decisionState ((requestFrom ''bootstrap-sa'')\<lparr>decisionState := Approved\<rparr>) \<noteq> Pending \<and>
   dispatch scenarioChain ((requestFrom ''bootstrap-sa'')\<lparr>decisionState := Approved\<rparr>) =
     ((requestFrom ''bootstrap-sa'')\<lparr>decisionState := Approved\<rparr>, []) \<and>
   redeliver [scenarioChain, scenarioChain, scenarioChain] (requestFrom ''bootstrap-sa'') =
     ((requestFrom ''bootstrap-sa'')\<lparr>decisionState := Approved\<rparr>, [Approved])"
  using decision_written_at_most_once
    [of "(requestFrom ''bootstrap-sa'')\<lparr>decisionState := Approved\<rparr>" scenarioChain
        "[scenarioChain, scenarioChain]"]
  by (simp add: scenarioChain_def dispatch_def writeDecision_def renewalPolicy_def
      bootstrapPolicy_def profileMatches_def scenarioConfig_def spokeProfile_def
      requestFrom_def example_defs)

subsection \<open>Liveness\<close>

text \<open>
  Claim C8. With R = 60 and T = 300, evaluating the heartbeat ages 30, 90, 150, 210, 270,
  330 in turn gives the availabilities Available (five times) and then Unreachable,
  whatever the cluster's state before the first evaluation. In general, a cluster that
  is not Unreachable becomes Unreachable by an evaluation exactly when the age exceeds T.
\<close>

theorem liveness_sample_sequence:
  "availabilitySequence \<lparr>renewInterval = 60, staleness = 300, exclusionKey = k\<rparr>
     [30, 90, 150, 210, 270, 330] c =
     [Available, Available, Available, Available, Available, Unreachable] \<and>
   (availability c \<noteq> Unreachable \<longrightarrow>
      (availability (evaluateLiveness cfg age c) = Unreachable \<longleftrightarrow> staleness cfg < age))"
  by (cases "availability c") (simp_all add: evaluateLiveness_def Let_def)

theorem liveness_sample_sequence_witness:
  "availabilitySequence sampleConfig [30, 90, 150, 210, 270, 330] freshCluster =
     [Available, Available, Available, Available, Available, Unreachable] \<and>
   availability freshCluster \<noteq> Unreachable \<and>
   availability (evaluateLiveness sampleConfig 300 freshCluster) = Available \<and>
   availability (evaluateLiveness sampleConfig 301 freshCluster) = Unreachable"
  using liveness_sample_sequence [of "''unreachable''" freshCluster sampleConfig 300]
    liveness_sample_sequence [of "''unreachable''" freshCluster sampleConfig 301]
  by (simp add: sampleConfig_def freshCluster_def evaluateLiveness_def)

subsection \<open>Workers\<close>

text \<open>
  Claim C10. Every controller that \<^verbatim>\<open>RunControllerManager\<close> starts is started with
  exactly one worker, so its pool never has more than one reconciliation in flight,
  whatever keys are queued. A run that returns no error starts the managed-cluster,
  taint, CSR approving, lease, finalizer, cluster-set, cluster-set-binding, cluster-role
  and the two add-on controllers, and the two default cluster-set controllers under
  their gate; a run that returns an error starts none.
\<close>

theorem every_controller_one_worker:
  "(\<forall>(c, workers) \<in> set (running (snd (RunControllerManager m e))).
      workers = 1 \<and> (\<forall>evs. length (inflight (runPool workers evs)) \<le> 1)) \<and>
   (case fst (RunControllerManager m e) of
      None \<Rightarrow>
        (\<exists>a ap rs. map fst (running (snd (RunControllerManager m e))) =
           [ManagedClusterController, TaintController, CSRApprovingController a ap rs,
            ClusterLeaseController, FinalizeController, ManagedClusterSetController,
            ManagedClusterSetBindingController, ManagedClusterClusterroleController,
            ManagedClusterAddOnHealthCheckController, AddOnFeatureDiscoveryController] @
           (if Enabled e DefaultClusterSet
            then [DefaultManagedClusterSetController, GlobalManagedClusterSetController]
            else []))
    | Some err \<Rightarrow> running (snd (RunControllerManager m e)) = [])"
proof -
  have one: "\<forall>(c, workers) \<in> set (running (snd (RunControllerManager m e))). workers = 1"
    by (auto simp add: manager_defs split: option.splits prod.splits)
  have pool: "\<forall>evs. length (inflight (runPool 1 evs)) \<le> 1"
    by (simp add: runPool_bound)
  have which: "(case fst (RunControllerManager m e) of
      None \<Rightarrow>
        (\<exists>a ap rs. map fst (running (snd (RunControllerManager m e))) =
           [ManagedClusterController, TaintController, CSRApprovingController a ap rs,
            ClusterLeaseController, FinalizeController, ManagedClusterSetController,
            ManagedClusterSetBindingController, ManagedClusterClusterroleController,
            ManagedClusterAddOnHealthCheckController, AddOnFeatureDiscoveryController] @
           (if Enabled e DefaultClusterSet
            then [DefaultManagedClusterSetController, GlobalManagedClusterSetController]
            else []))
    | Some err \<Rightarrow> running (snd (RunControllerManager m e)) = [])"
    by (auto simp add: manager_defs split: option.splits prod.splits)
  from one pool which show ?thesis by fastforce
qed

theorem every_controller_one_worker_witness:
  "map snd (running (snd (RunControllerManager bootstrapUsers gatesOnBothServed))) =
     replicate 12 1 \<and>
   runPool 1 [Add ''cluster1'', Add ''cluster2'', Get, Get] =
     \<lparr>queue = [''cluster2''], inflight = [''cluster1'']\<rparr> \<and>
   runPool 2 [Add ''cluster1'', Add ''cluster2'', Get, Get] =
     \<lparr>queue = [], inflight = [''cluster1'', ''cluster2'']\<rparr>"
  using every_controller_one_worker [of bootstrapUsers gatesOnBothServed]
  by (simp add: manager_defs example_defs runPool_def pool0_def numeral_eq_Suc)

end
